theory Spec2Isabelle
  imports Main "HOL-Library.Sublist"
begin

section \<open>Basic vocabulary of \<open>entry.go\<close>\<close>

text \<open>
  A Go \<open>error\<close> is represented by its message; the nil error is \<open>None\<close> of
  \<open>error option\<close>.
\<close>

type_synonym error = string

type_synonym operationName = string

type_synonym operationStage = string

definition Name :: "operationStage \<Rightarrow> string" where
  "Name op = op"

definition String :: "operationName \<Rightarrow> string" where
  "String op = op"

definition createOp :: operationName where "createOp = ''create''"
definition updateOp :: operationName where "updateOp = ''update''"
definition queryOp :: operationName where "queryOp = ''query''"
definition deleteOp :: operationName where "deleteOp = ''delete''"
definition rowOp :: operationName where "rowOp = ''row''"
definition rawOp :: operationName where "rawOp = ''raw''"

definition stageBeforeCreate :: operationStage where "stageBeforeCreate = ''otel:before_create''"
definition stageAfterCreate :: operationStage where "stageAfterCreate = ''otel:after_create''"
definition stageBeforeRaw :: operationStage where "stageBeforeRaw = ''otel:before_raw''"

section \<open>The error accumulator \<open>myError\<close>\<close>

text \<open>\<open>strings.Join(elems, sep)\<close> of the Go standard library.\<close>

fun Join :: "string list \<Rightarrow> string \<Rightarrow> string" where
  "Join [] sep = []"
| "Join [x] sep = x"
| "Join (x # y # ys) sep = x @ sep @ Join (y # ys) sep"

record myError =
  errs :: "string list"

definition add :: "myError \<Rightarrow> operationStage \<Rightarrow> error option \<Rightarrow> myError" where
  "add e stage err =
     (case err of
        None \<Rightarrow> e
      | Some m \<Rightarrow> e\<lparr>errs := errs e @ [''stage='' @ Name stage @ '':'' @ m]\<rparr>)"

text \<open>
  \<open>toError\<close> returns the accumulator itself as the error value, or nil; the message
  of that error value is computed by \<open>Error\<close>.
\<close>

definition toError :: "myError \<Rightarrow> myError option" where
  "toError e = (if length (errs e) = 0 then None else Some e)"

definition Error :: "myError \<Rightarrow> string" where
  "Error e = Join (errs e) '';''"

text \<open>A sequence of \<open>add\<close> calls on one accumulator, in call order.\<close>

definition add_all :: "myError \<Rightarrow> (operationStage \<times> error option) list \<Rightarrow> myError" where
  "add_all e calls = foldl (\<lambda>a (stage, err). add a stage err) e calls"

text \<open>The entries a sequence of calls contributes: one per call with a present error.\<close>

definition entries :: "(operationStage \<times> error option) list \<Rightarrow> string list" where
  "entries calls =
     concat (map (\<lambda>(stage, err). case err of None \<Rightarrow> []
                                   | Some m \<Rightarrow> [''stage='' @ Name stage @ '':'' @ m]) calls)"

section \<open>Plugin options\<close>

text \<open>
  A tracer provider is an opaque reference; a nil provider is \<open>None\<close> of
  \<open>TracerProvider option\<close>. \<open>otel.GetTracerProvider()\<close> reads the process-wide
  provider, which is a parameter of the model.
\<close>

datatype TracerProvider = TracerProvider nat

datatype errorTagHook = defaultErrorTagHook | customErrorTagHook nat

record options =
  logResult :: bool
  tracer :: "TracerProvider option"
  logSqlParameters :: bool
  errorTagHook :: "errorTagHook option"
  createOpName :: operationName
  updateOpName :: operationName
  queryOpName :: operationName
  deleteOpName :: operationName
  rowOpName :: operationName
  rawOpName :: operationName

definition defaultOption :: "TracerProvider \<Rightarrow> options" where
  "defaultOption GetTracerProvider =
     \<lparr> logResult = False,
       tracer = Some GetTracerProvider,
       logSqlParameters = True,
       errorTagHook = None,
       createOpName = createOp,
       updateOpName = updateOp,
       queryOpName = queryOp,
       deleteOpName = deleteOp,
       rowOpName = rowOp,
       rawOpName = rawOp \<rparr>"

type_synonym ApplyOption = "options \<Rightarrow> options"

definition WithLogResult :: "bool \<Rightarrow> ApplyOption" where
  "WithLogResult lr = (\<lambda>dst. dst\<lparr>logResult := lr\<rparr>)"

definition WithTracer :: "TracerProvider option \<Rightarrow> ApplyOption" where
  "WithTracer t = (\<lambda>dst. case t of None \<Rightarrow> dst | Some p \<Rightarrow> dst\<lparr>tracer := Some p\<rparr>)"

definition WithSqlParameters :: "bool \<Rightarrow> ApplyOption" where
  "WithSqlParameters lp = (\<lambda>dst. dst\<lparr>logSqlParameters := lp\<rparr>)"

record OpentracingPlugin =
  opt :: options

definition New :: "TracerProvider \<Rightarrow> ApplyOption list \<Rightarrow> OpentracingPlugin" where
  "New GetTracerProvider opts =
     \<lparr> opt = foldl (\<lambda>dst apply. apply dst) (defaultOption GetTracerProvider) opts \<rparr>"

definition plugin_Name :: "OpentracingPlugin \<Rightarrow> string" where
  "plugin_Name op = ''otel''"

section \<open>The collaborators of the hooks\<close>

text \<open>
  The hooks of \<open>entry.go\<close> work on the host's handle and on the tracing, clock and
  logging packages, none of which is part of the source file. They are modelled by what
  the hooks use of them.
\<close>

text \<open>
  Modelled from the spec: the attribute constructors of the absent \<open>util\<close> package.
  \<open>util.DBSystemValue\<close> is the fixed database-system attribute,
  \<open>util.DBNameKey.String(s)\<close> the database-name attribute and
  \<open>util.DBStatementKey.String(s)\<close> the SQL-text attribute.
\<close>

datatype attr = DBSystemValue | DBNameKey string | DBStatementKey string

text \<open>
  Modelled from the spec: a span of the tracing backend (\<open>tracer.start\<close>,
  \<open>span.setAttributes\<close>, \<open>span.end\<close>). A span remembers the provider and the
  tracer name it was started from. A span handle (\<open>trace.Span\<close>) is its position in
  the backend's sequence of spans.
\<close>

record otel_span =
  sp_provider :: TracerProvider
  sp_tracer :: string
  sp_name :: string
  sp_attrs :: "attr list"
  sp_ended :: bool

type_synonym span_handle = nat

text \<open>
  Modelled from the spec: the absent \<open>time\<close> package. A \<open>time.Time\<close> is a number of
  nanoseconds counted from the zero \<open>Time\<close>, so the zero value of the type is \<open>0\<close>. A
  \<open>Duration\<close> is a signed 64-bit count of nanoseconds, and \<open>t.Sub(u)\<close> saturates at
  its bounds.
\<close>

type_synonym Time = int

type_synonym Duration = int

definition zeroTime :: Time where
  "zeroTime = 0"

definition maxDuration :: Duration where
  "maxDuration = 9223372036854775807"

definition minDuration :: Duration where
  "minDuration = - 9223372036854775808"

definition Sub :: "Time \<Rightarrow> Time \<Rightarrow> Duration" where
  "Sub t u =
     (let d = t - u
      in if d > maxDuration then maxDuration
         else if d < minDuration then minDuration
         else d)"

text \<open>
  Modelled from the spec: the per-call instance store of the host
  (\<open>instanceSet(key, value)\<close>, \<open>instanceGet(key) \<rightarrow> (value, found)\<close>), scoped to one
  statement. The stored values are Go interface values; the hooks store a
  \<open>time.Time\<close> and a \<open>trace.Span\<close>, and any other dynamic type is \<open>VOther\<close>.
\<close>

datatype inst_val = VTime Time | VSpan span_handle | VOther string

datatype go_context = Ctx nat

record Statement =
  Context :: "go_context option"
  SQL :: string
  Vars :: "string list"
  Settings :: "string \<rightharpoonup> inst_val"

text \<open>
  The dialector of a handle: \<open>db.Name()\<close> is the dialector's name, and
  \<open>db.Dialector.Explain\<close> interpolates the bound parameters into the SQL text. A handle
  that the host passes to a hook always carries a dialector; the handle itself and its
  statement may be nil.
\<close>

record Dialector =
  dialector_Name :: string
  Explain :: "string \<Rightarrow> string list \<Rightarrow> string"

record DB =
  Dialector :: Dialector
  Statement :: "Statement option"

record log_entry =
  lg_ctx :: go_context
  lg_name :: string
  lg_cost :: Duration
  lg_sql :: string

text \<open>
  Everything outside the handle that a hook reads or writes: the clock, the process-wide
  tracer provider, the spans of the tracing backend and the debug log.
\<close>

record world =
  clock :: Time
  global_provider :: TracerProvider
  spans :: "otel_span list"
  logs :: "log_entry list"

definition Now :: "world \<Rightarrow> Time" where
  "Now w = clock w"

definition Since :: "world \<Rightarrow> Time \<Rightarrow> Duration" where
  "Since w t = Sub (Now w) t"

definition DB_Name :: "DB \<Rightarrow> string" where
  "DB_Name db = dialector_Name (Dialector db)"

definition InstanceSet :: "DB \<Rightarrow> string \<Rightarrow> inst_val \<Rightarrow> DB" where
  "InstanceSet db key v =
     (case Statement db of
        None \<Rightarrow> db
      | Some st \<Rightarrow> db\<lparr>Statement := Some (st\<lparr>Settings := (Settings st)(key \<mapsto> v)\<rparr>)\<rparr>)"

definition InstanceGet :: "DB \<Rightarrow> string \<Rightarrow> inst_val option" where
  "InstanceGet db key = (case Statement db of None \<Rightarrow> None | Some st \<Rightarrow> Settings st key)"

text \<open>\<open>otel.Tracer(name).Start(ctx, spanName)\<close>: a new span of the process-wide provider.\<close>

definition Tracer_Start :: "string \<Rightarrow> string \<Rightarrow> world \<Rightarrow> span_handle \<times> world" where
  "Tracer_Start tracer_name span_name w =
     (length (spans w),
      w\<lparr>spans := spans w @
          [\<lparr> sp_provider = global_provider w, sp_tracer = tracer_name,
             sp_name = span_name, sp_attrs = [], sp_ended = False \<rparr>]\<rparr>)"

definition SetAttributes :: "span_handle \<Rightarrow> attr \<Rightarrow> world \<Rightarrow> world" where
  "SetAttributes h a w =
     (if h < length (spans w)
      then w\<lparr>spans := (spans w)[h := (spans w ! h)\<lparr>sp_attrs := sp_attrs (spans w ! h) @ [a]\<rparr>]\<rparr>
      else w)"

definition End :: "span_handle \<Rightarrow> world \<Rightarrow> world" where
  "End h w =
     (if h < length (spans w)
      then w\<lparr>spans := (spans w)[h := (spans w ! h)\<lparr>sp_ended := True\<rparr>]\<rparr>
      else w)"

definition Debugf :: "go_context \<Rightarrow> string \<Rightarrow> Duration \<Rightarrow> string \<Rightarrow> world \<Rightarrow> world" where
  "Debugf ctx name cost sql w =
     w\<lparr>logs := logs w @ [\<lparr> lg_ctx = ctx, lg_name = name, lg_cost = cost, lg_sql = sql \<rparr>]\<rparr>"

section \<open>The span lifecycle hooks\<close>

text \<open>
  A hook receives the handle (a pointer, possibly nil) and returns nothing; the model
  returns the handle and the world as the hook leaves them.
\<close>

definition injectBefore ::
  "OpentracingPlugin \<Rightarrow> DB option \<Rightarrow> operationName \<Rightarrow> world \<Rightarrow> DB option \<times> world" where
  "injectBefore op db name w =
     (case db of
        None \<Rightarrow> (db, w)
      | Some d \<Rightarrow>
          (case Statement d of
             None \<Rightarrow> (db, w)
           | Some st \<Rightarrow>
               (case Context st of
                  None \<Rightarrow> (db, w)
                | Some ctx \<Rightarrow>
                    (let (span, w1) = Tracer_Start ''MySQL-Operation'' (String name) w;
                         w2 = SetAttributes span DBSystemValue w1;
                         w3 = SetAttributes span (DBNameKey (DB_Name d)) w2;
                         now = Now w3;
                         d1 = InstanceSet d ''start_time'' (VTime now);
                         d2 = InstanceSet d1 ''span'' (VSpan span)
                     in (Some d2, w3)))))"

definition extractAfter :: "OpentracingPlugin \<Rightarrow> DB option \<Rightarrow> world \<Rightarrow> DB option \<times> world" where
  "extractAfter op db w =
     (case db of
        None \<Rightarrow> (db, w)
      | Some d \<Rightarrow>
          (case Statement d of
             None \<Rightarrow> (db, w)
           | Some st \<Rightarrow>
               (case Context st of
                  None \<Rightarrow> (db, w)
                | Some ctx \<Rightarrow>
                    (let startTime = (case InstanceGet d ''start_time'' of
                                        Some (VTime t) \<Rightarrow> t
                                      | _ \<Rightarrow> zeroTime);
                         sql = Explain (Dialector d) (SQL st) (Vars st);
                         w1 = (case InstanceGet d ''span'' of
                                 Some (VSpan spanner) \<Rightarrow>
                                   End spanner (SetAttributes spanner (DBStatementKey sql) w)
                               | _ \<Rightarrow> w)
                     in (db, Debugf ctx (DB_Name d) (Since w1 startTime) sql w1)))))"

definition beforeCreate :: "OpentracingPlugin \<Rightarrow> DB option \<Rightarrow> world \<Rightarrow> DB option \<times> world" where
  "beforeCreate op db w = injectBefore op db (createOpName (opt op)) w"

definition beforeUpdate :: "OpentracingPlugin \<Rightarrow> DB option \<Rightarrow> world \<Rightarrow> DB option \<times> world" where
  "beforeUpdate op db w = injectBefore op db (updateOpName (opt op)) w"

definition beforeQuery :: "OpentracingPlugin \<Rightarrow> DB option \<Rightarrow> world \<Rightarrow> DB option \<times> world" where
  "beforeQuery op db w = injectBefore op db (queryOpName (opt op)) w"

definition beforeDelete :: "OpentracingPlugin \<Rightarrow> DB option \<Rightarrow> world \<Rightarrow> DB option \<times> world" where
  "beforeDelete op db w = injectBefore op db (deleteOpName (opt op)) w"

definition beforeRow :: "OpentracingPlugin \<Rightarrow> DB option \<Rightarrow> world \<Rightarrow> DB option \<times> world" where
  "beforeRow op db w = injectBefore op db (rowOpName (opt op)) w"

definition beforeRaw :: "OpentracingPlugin \<Rightarrow> DB option \<Rightarrow> world \<Rightarrow> DB option \<times> world" where
  "beforeRaw op db w = injectBefore op db (rawOpName (opt op)) w"

definition after :: "OpentracingPlugin \<Rightarrow> DB option \<Rightarrow> world \<Rightarrow> DB option \<times> world" where
  "after op db w = extractAfter op db w"

section \<open>Installing the hooks: \<open>Initialize\<close>\<close>








section \<open>The connection registry: \<open>Get\<close>\<close>

text \<open>
  The package-level state: the mapping \<open>dbs\<close>, the keys that have a call in flight in the
  single-flight group \<open>sfg\<close>, and (as a ghost field) the connection strings handed to
  \<open>gorm.Open\<close> so far, one entry per invocation. The reader/writer lock \<open>rwl\<close> has no
  effect on a single caller and is left out.
\<close>

record 'h registry =
  dbs :: "string \<rightharpoonup> 'h"
  sfg :: "string set"
  opened :: "string list"

text \<open>
  The host: \<open>gorm.Open(mysql.Open(dsn), &gorm.Config{})\<close>, which may answer differently
  on each invocation (its first argument counts the earlier invocations), \<open>db.Use\<close>,
  whose error \<open>Get\<close> discards, and the process-wide tracer provider.
\<close>

record 'h host =
  gorm_Open :: "nat \<Rightarrow> string \<Rightarrow> error + 'h"
  Use :: "'h \<Rightarrow> OpentracingPlugin \<Rightarrow> 'h"
  GetTracerProvider :: TracerProvider

text \<open>
  What a call of \<open>Get\<close> does: it returns its two results, or it panics, or it waits for
  a call of another goroutine that is in flight under the same key.
\<close>

datatype 'h outcome = Return "'h option" "error option" | Panic string | Blocked

text \<open>
  The function literal passed to \<open>sfg.Do\<close>. It returns an interface value (nil is
  \<open>None\<close>) and an error; it assigns the same error to the named result \<open>err\<close> of
  \<open>Get\<close>.
\<close>

definition Get_fn ::
  "'h host \<Rightarrow> string \<Rightarrow> string \<Rightarrow> 'h registry \<Rightarrow> ('h option \<times> error option) \<times> 'h registry" where
  "Get_fn host name dsn s =
     (let s1 = s\<lparr>opened := opened s @ [dsn]\<rparr>
      in case gorm_Open host (length (opened s)) dsn of
           Inl err \<Rightarrow> ((None, Some err), s1)
         | Inr db \<Rightarrow>
             (let db1 = Use host db
                          (New (GetTracerProvider host) [WithLogResult False, WithSqlParameters True])
              in ((Some db1, None), s1\<lparr>dbs := (dbs s1)(name \<mapsto> db1)\<rparr>)))"

text \<open>
  \<open>singleflight.Group.Do\<close> for a caller that runs alone: with no call in flight under
  the key it registers the key, runs the function, forgets the key and returns the
  function's results; with a call in flight it waits for that call (\<open>None\<close>).
\<close>

definition sfg_Do ::
  "string \<Rightarrow> ('h registry \<Rightarrow> 'a \<times> 'h registry) \<Rightarrow> 'h registry \<Rightarrow> ('a \<times> 'h registry) option" where
  "sfg_Do key fn s =
     (if key \<in> sfg s then None
      else (let (r, s1) = fn (s\<lparr>sfg := insert key (sfg s)\<rparr>)
            in Some (r, s1\<lparr>sfg := sfg s1 - {key}\<rparr>)))"

text \<open>
  \<open>Get\<close> discards the error and the sharing flag returned by \<open>sfg.Do\<close> and asserts
  \<open>v.(*gorm.DB)\<close> without the comma-ok form: on a nil interface value the assertion
  panics.
\<close>

definition Get ::
  "'h host \<Rightarrow> go_context \<Rightarrow> string \<Rightarrow> string \<Rightarrow> 'h registry \<Rightarrow> 'h outcome \<times> 'h registry" where
  "Get host ctx name dsn s =
     (case dbs s name of
        Some v \<Rightarrow> (Return (Some v) None, s)
      | None \<Rightarrow>
          (case sfg_Do name (Get_fn host name dsn) s of
             None \<Rightarrow> (Blocked, s)
           | Some ((v, err), s1) \<Rightarrow>
               (case v of
                  None \<Rightarrow> (Panic ''interface conversion: interface is nil, not *gorm.DB'', s1)
                | Some db \<Rightarrow> (Return (Some db) err, s1))))"

text \<open>A sequence of \<open>Get\<close> calls by one caller, each on the state the previous one left.\<close>

fun Get_all :: "'h host \<Rightarrow> (go_context \<times> string \<times> string) list \<Rightarrow> 'h registry \<Rightarrow> 'h registry" where
  "Get_all host [] s = s"
| "Get_all host ((ctx, name, dsn) # cs) s = Get_all host cs (snd (Get host ctx name dsn s))"

section \<open>Concurrent callers of \<open>Get\<close>\<close>

text \<open>
  Several goroutines call \<open>Get\<close> with the same name and connection string. A caller
  is at the start of \<open>Get\<close>, or past \<open>rwl.RUnlock()\<close> with a cache miss and before
  \<open>sfg.Do\<close>, or it has finished with an outcome.

  \<open>Get_step\<close> is one uninterrupted stretch of one caller. The first stretch is the
  lookup under the read lock. No lock is held between \<open>rwl.RUnlock()\<close> and
  \<open>sfg.Do\<close>, so other callers may run there. The second stretch is the whole call of
  \<open>sfg.Do\<close> with the type assertion after it, run without interruption; the function
  literal does not look at \<open>dbs\<close> again before it opens. A caller that finds a call
  in flight under its key stays where it is.
\<close>

datatype 'h caller = Start | Missed | Finished "'h outcome"

definition Get_step ::
  "'h host \<Rightarrow> go_context \<Rightarrow> string \<Rightarrow> string \<Rightarrow> 'h caller \<Rightarrow> 'h registry \<Rightarrow> 'h caller \<times> 'h registry" where
  "Get_step host ctx name dsn c s =
     (case c of
        Start \<Rightarrow>
          (case dbs s name of
             Some v \<Rightarrow> (Finished (Return (Some v) None), s)
           | None \<Rightarrow> (Missed, s))
      | Missed \<Rightarrow>
          (case sfg_Do name (Get_fn host name dsn) s of
             None \<Rightarrow> (Missed, s)
           | Some ((v, err), s1) \<Rightarrow>
               (case v of
                  None \<Rightarrow> (Finished (Panic ''interface conversion: interface is nil, not *gorm.DB''), s1)
                | Some db \<Rightarrow> (Finished (Return (Some db) err), s1)))
      | Finished r \<Rightarrow> (c, s))"

text \<open>
  A schedule is the list of the callers' indices in the order in which they take their
  stretches; \<open>run_schedule\<close> runs it on the callers' positions and the shared state.
\<close>

definition run_schedule ::
  "'h host \<Rightarrow> go_context \<Rightarrow> string \<Rightarrow> string \<Rightarrow> nat list \<Rightarrow>
     'h caller list \<times> 'h registry \<Rightarrow> 'h caller list \<times> 'h registry" where
  "run_schedule host ctx name dsn sched cfg =
     foldl (\<lambda>(cs, s) i.
              if i < length cs
              then (let (c, s1) = Get_step host ctx name dsn (cs ! i) s in (cs[i := c], s1))
              else (cs, s))
       cfg sched"

section \<open>Predicates used in the statements\<close>

text \<open>
  The operation context is absent: the handle is nil, or its statement is nil, or the
  statement has no execution context.
\<close>

definition absent_context :: "DB option \<Rightarrow> bool" where
  "absent_context db =
     (case db of
        None \<Rightarrow> True
      | Some d \<Rightarrow> (case Statement d of None \<Rightarrow> True | Some st \<Rightarrow> Context st = None))"

section \<open>Example inputs\<close>

text \<open>
  Concrete inputs for the worked instances below: a statement with an execution context,
  one bound parameter and an empty per-call store, and the same statement without an
  execution context; a handle of a dialector named \<open>mysql\<close> whose \<open>Explain\<close> appends
  the bound parameters to the SQL text; a world whose clock reads a present-day instant
  and that has no span and no log line yet.
\<close>

abbreviation example_statement :: Statement where
  "example_statement \<equiv>
     \<lparr> Context = Some (Ctx 1), SQL = ''SELECT '', Vars = [''42''], Settings = Map.empty \<rparr>"

abbreviation example_statement_no_context :: Statement where
  "example_statement_no_context \<equiv>
     \<lparr> Context = None, SQL = ''SELECT '', Vars = [''42''], Settings = Map.empty \<rparr>"

abbreviation example_db :: DB where
  "example_db \<equiv>
     \<lparr> Dialector = \<lparr> dialector_Name = ''mysql'', Explain = (\<lambda>sql vars. sql @ concat vars) \<rparr>,
       Statement = Some example_statement \<rparr>"

abbreviation example_db_no_context :: DB where
  "example_db_no_context \<equiv>
     \<lparr> Dialector = \<lparr> dialector_Name = ''mysql'', Explain = (\<lambda>sql vars. sql @ concat vars) \<rparr>,
       Statement = Some example_statement_no_context \<rparr>"

abbreviation example_world :: world where
  "example_world \<equiv>
     \<lparr> clock = 63898000000000000000, global_provider = TracerProvider 0, spans = [], logs = [] \<rparr>"


abbreviation example_host :: "nat host" where
  "example_host \<equiv>
     \<lparr> gorm_Open = (\<lambda>n dsn. if n = 0 then Inl ''connection refused'' else Inr (100 + n)),
       Use = (\<lambda>db p. db), GetTracerProvider = TracerProvider 0 \<rparr>"

text \<open>A host whose \<open>gorm.Open\<close> always succeeds, with a new handle on each invocation.\<close>

abbreviation example_host_ok :: "nat host" where
  "example_host_ok \<equiv>
     \<lparr> gorm_Open = (\<lambda>n dsn. Inr (100 + n)), Use = (\<lambda>db p. db),
       GetTracerProvider = TracerProvider 0 \<rparr>"


section \<open>Properties of the error accumulator\<close>

lemma Join_snoc:
  "Join (xs @ [x]) sep = (if xs = [] then x else Join xs sep @ sep @ x)"
  by (induction xs sep rule: Join.induct) auto

lemma errs_add_all: "errs (add_all e calls) = errs e @ entries calls"
  unfolding add_all_def entries_def
  by (induction calls arbitrary: e) (auto simp: add_def split: option.splits)



text \<open>
  Claim C4, as the code has it. For every sequence of \<open>add\<close> calls on an accumulator,
  a call with an absent error changes nothing and a call with a present error appends
  exactly one entry, the string \<open>"stage=" + stage + ":" + message\<close> (the source
  prefixes the literal \<open>stage=\<close>), so the sequence after the calls is the sequence
  before them followed by one entry per present error, in call order. \<open>toError\<close>
  returns no error when the sequence is empty and otherwise the accumulator, whose
  message is the entries joined by \<open>;\<close> in insertion order.
\<close>

theorem myError_add_toError:
  "add e stage None = e \<and>
   errs (add e stage (Some m)) = errs e @ [''stage='' @ stage @ '':'' @ m] \<and>
   errs (add_all e calls) = errs e @ entries calls \<and>
   (errs e = [] \<longrightarrow> toError e = None) \<and>
   (errs e \<noteq> [] \<longrightarrow> toError e = Some e) \<and>
   Error e = Join (errs e) '';'' \<and>
   Error (add e stage (Some m)) =
     (if errs e = [] then ''stage='' @ stage @ '':'' @ m
      else Error e @ '';'' @ ''stage='' @ stage @ '':'' @ m)"
  by (simp add: add_def toError_def Error_def Name_def errs_add_all Join_snoc)

theorem myError_add_toError_witness:
  "errs (add_all \<lparr>errs = []\<rparr>
      [(stageBeforeCreate, Some ''dup''), (stageAfterCreate, None), (stageBeforeRaw, Some ''bad'')])
     = [''stage=otel:before_create:dup'', ''stage=otel:before_raw:bad''] \<and>
   toError \<lparr>errs = []\<rparr> = None \<and>
   toError \<lparr>errs = [''stage=otel:before_create:dup'']\<rparr> = Some \<lparr>errs = [''stage=otel:before_create:dup'']\<rparr> \<and>
   Error \<lparr>errs = [''stage=otel:before_create:dup'', ''stage=otel:before_raw:bad'']\<rparr>
     = ''stage=otel:before_create:dup;stage=otel:before_raw:bad''"
  using myError_add_toError [of "\<lparr>errs = []\<rparr>" stageBeforeCreate "''dup''"
      "[(stageBeforeCreate, Some ''dup''), (stageAfterCreate, None), (stageBeforeRaw, Some ''bad'')]"]
    myError_add_toError [of "\<lparr>errs = [''stage=otel:before_create:dup'']\<rparr>" stageBeforeCreate "''dup''" "[]"]
    myError_add_toError [of "\<lparr>errs = [''stage=otel:before_create:dup'', ''stage=otel:before_raw:bad'']\<rparr>" stageBeforeCreate "''dup''" "[]"]
  by (simp add: entries_def Name_def stageBeforeCreate_def stageAfterCreate_def stageBeforeRaw_def)

text \<open>
  Claim C4, as the spec words it, fails: the entry appended for stage
  \<open>otel:before_create\<close> and message \<open>boom\<close> is not \<open>stage + ":" + message\<close>.
\<close>

theorem add_entry_counterexample:
  "errs (add \<lparr>errs = []\<rparr> stageBeforeCreate (Some ''boom''))
     \<noteq> errs \<lparr>errs = []\<rparr> @ [stageBeforeCreate @ '':'' @ ''boom'']"
  by (simp add: add_def Name_def stageBeforeCreate_def)

section \<open>Properties of plugin construction\<close>

text \<open>
  Claim C8. \<open>New\<close> applies the option functions in order over the default
  configuration, in which \<open>logResult\<close> is false, \<open>logSqlParameters\<close> is true and the
  tracer is the process-wide provider. \<open>WithTracer\<close> of a nil provider leaves the
  options as they are, so after \<open>New(WithTracer(nil))\<close> the tracer is the process-wide
  provider and not nil.
\<close>

theorem New_options:
  "opt (New gtp []) = defaultOption gtp \<and>
   logResult (defaultOption gtp) = False \<and>
   logSqlParameters (defaultOption gtp) = True \<and>
   tracer (defaultOption gtp) = Some gtp \<and>
   opt (New gtp (opts @ [a])) = a (opt (New gtp opts)) \<and>
   WithTracer None dst = dst \<and>
   opt (New gtp (opts @ [WithTracer None])) = opt (New gtp opts) \<and>
   tracer (opt (New gtp [WithTracer None])) = Some gtp \<and>
   tracer (opt (New gtp [WithTracer None])) \<noteq> None"
  by (simp add: New_def defaultOption_def WithTracer_def)


section \<open>Properties of the span lifecycle hooks\<close>

lemma injectBefore_absent: "absent_context db \<Longrightarrow> injectBefore op db name w = (db, w)"
  by (auto simp: absent_context_def injectBefore_def split: option.splits)

lemma extractAfter_absent: "absent_context db \<Longrightarrow> extractAfter op db w = (db, w)"
  by (auto simp: absent_context_def extractAfter_def split: option.splits)

lemma injectBefore_present:
  assumes "Statement d = Some st" and "Context st = Some ctx"
  shows "injectBefore op (Some d) name w =
     (Some (d\<lparr>Statement := Some (st\<lparr>Settings :=
          (Settings st)(''start_time'' \<mapsto> VTime (clock w), ''span'' \<mapsto> VSpan (length (spans w)))\<rparr>)\<rparr>),
      w\<lparr>spans := spans w @
          [\<lparr> sp_provider = global_provider w, sp_tracer = ''MySQL-Operation'',
             sp_name = name, sp_attrs = [DBSystemValue, DBNameKey (dialector_Name (Dialector d))],
             sp_ended = False \<rparr>]\<rparr>)"
  using assms
  by (simp add: injectBefore_def Tracer_Start_def SetAttributes_def Now_def InstanceSet_def
      DB_Name_def String_def Let_def)

lemma extractAfter_present:
  assumes "Statement d = Some st" and "Context st = Some ctx"
  shows "extractAfter op (Some d) w =
     (let startTime = (case Settings st ''start_time'' of Some (VTime t) \<Rightarrow> t | _ \<Rightarrow> zeroTime);
          sql = Explain (Dialector d) (SQL st) (Vars st);
          w1 = (case Settings st ''span'' of
                  Some (VSpan spanner) \<Rightarrow> End spanner (SetAttributes spanner (DBStatementKey sql) w)
                | _ \<Rightarrow> w)
      in (Some d, w1\<lparr>logs := logs w1 @
            [\<lparr> lg_ctx = ctx, lg_name = dialector_Name (Dialector d),
               lg_cost = Sub (clock w1) startTime, lg_sql = sql \<rparr>]\<rparr>))"
  using assms
  by (simp add: extractAfter_def InstanceGet_def Debugf_def Since_def Now_def DB_Name_def Let_def)

lemma Sub_zero_iff: "Sub t zeroTime = 0 \<longleftrightarrow> t = zeroTime"
  by (auto simp: Sub_def zeroTime_def maxDuration_def minDuration_def Let_def)

text \<open>
  Claim C6. When the operation context is absent (nil handle, nil statement or nil
  execution context), the before hook of every operation kind and the after hook return
  at once: the handle with its per-call state and the world (spans, log, clock) are
  exactly as before, so no span is started or ended and nothing is stored, and the hook
  has no failing branch.
\<close>

theorem hooks_noop_without_context:
  "absent_context db \<Longrightarrow>
     injectBefore op db name w = (db, w) \<and> extractAfter op db w = (db, w) \<and>
     beforeCreate op db w = (db, w) \<and> beforeUpdate op db w = (db, w) \<and>
     beforeQuery op db w = (db, w) \<and> beforeDelete op db w = (db, w) \<and>
     beforeRow op db w = (db, w) \<and> beforeRaw op db w = (db, w) \<and>
     after op db w = (db, w)"
  by (simp add: injectBefore_absent extractAfter_absent beforeCreate_def beforeUpdate_def
      beforeQuery_def beforeDelete_def beforeRow_def beforeRaw_def after_def)

theorem hooks_noop_without_context_witness:
  "absent_context (Some example_db_no_context) \<and>
   beforeQuery (New (TracerProvider 0) []) (Some example_db_no_context) example_world
     = (Some example_db_no_context, example_world) \<and>
   after (New (TracerProvider 0) []) (Some example_db_no_context) example_world
     = (Some example_db_no_context, example_world) \<and>
   absent_context None \<and>
   beforeQuery (New (TracerProvider 0) []) None example_world = (None, example_world) \<and>
   after (New (TracerProvider 0) []) None example_world = (None, example_world)"
  using hooks_noop_without_context [of "Some example_db_no_context" "New (TracerProvider 0) []" "''query''" "example_world"]
    hooks_noop_without_context [of None "New (TracerProvider 0) []" "''query''" "example_world"]
  by (simp add: absent_context_def)

text \<open>
  Claim C7, as the code has it. With a present execution context and neither
  \<open>start_time\<close> nor \<open>span\<close> stored, the after hook does not fail, leaves the handle
  and every span untouched, and appends one log line with the connection name and the
  derived SQL. The elapsed duration of that line is measured from the zero timestamp
  (\<open>time.Since\<close> of the zero \<open>Time\<close>, saturated at the bounds of a duration); it is
  zero only when the clock itself reads the zero timestamp.
\<close>

theorem after_without_before:
  assumes "Statement d = Some st" and "Context st = Some ctx"
    and "Settings st ''start_time'' = None" and "Settings st ''span'' = None"
  shows "after op (Some d) w =
      (Some d, w\<lparr>logs := logs w @
            [\<lparr> lg_ctx = ctx, lg_name = dialector_Name (Dialector d),
               lg_cost = Sub (clock w) zeroTime,
               lg_sql = Explain (Dialector d) (SQL st) (Vars st) \<rparr>]\<rparr>) \<and>
    spans (snd (after op (Some d) w)) = spans w \<and>
    (Sub (clock w) zeroTime = 0 \<longleftrightarrow> clock w = zeroTime)"
  using assms by (simp add: after_def extractAfter_present Sub_zero_iff)


theorem after_without_before_witness:
  "Statement example_db = Some example_statement \<and>
   Context example_statement = Some (Ctx 1) \<and>
   Settings example_statement ''start_time'' = None \<and>
   Settings example_statement ''span'' = None \<and>
   after (New (TracerProvider 0) []) (Some example_db) example_world
     = (Some example_db,
        \<lparr> clock = 63898000000000000000, global_provider = TracerProvider 0, spans = [],
          logs = [\<lparr> lg_ctx = Ctx 1, lg_name = ''mysql'', lg_cost = 9223372036854775807,
                    lg_sql = ''SELECT 42'' \<rparr>] \<rparr>)"
  using after_without_before [of "example_db" "example_statement" "Ctx 1" "New (TracerProvider 0) []" "example_world"]
  by (simp add: Sub_def zeroTime_def maxDuration_def minDuration_def)

text \<open>
  Claim C7, as the spec words it, fails: with the clock at a present-day reading and no
  stored state, the logged duration is the largest duration, not zero.
\<close>

theorem after_without_before_counterexample:
  "map lg_cost (logs (snd (after (New (TracerProvider 0) []) (Some example_db) example_world)))
     = [9223372036854775807] \<and>
   map lg_cost (logs (snd (after (New (TracerProvider 0) []) (Some example_db) example_world))) \<noteq> [0]"
  by (simp add: after_def extractAfter_def InstanceGet_def Debugf_def Since_def Now_def
      DB_Name_def Sub_def zeroTime_def maxDuration_def minDuration_def)

text \<open>
  Claim C9. With a present operation context, the before hook starts a new span named by
  the operation name it is given, which for each of the six kinds is the name configured
  for that kind; the span carries the fixed database-system attribute and the
  database-name attribute of the handle's name; the current timestamp and the span
  handle are stored in the per-call state under \<open>start_time\<close> and \<open>span\<close>.
\<close>

theorem before_hook_starts_span:
  assumes "Statement d = Some st" and "Context st = Some ctx"
  shows "injectBefore op (Some d) name w =
     (Some (d\<lparr>Statement := Some (st\<lparr>Settings :=
          (Settings st)(''start_time'' \<mapsto> VTime (Now w), ''span'' \<mapsto> VSpan (length (spans w)))\<rparr>)\<rparr>),
      w\<lparr>spans := spans w @
          [\<lparr> sp_provider = global_provider w, sp_tracer = ''MySQL-Operation'',
             sp_name = name, sp_attrs = [DBSystemValue, DBNameKey (DB_Name d)],
             sp_ended = False \<rparr>]\<rparr>) \<and>
    beforeCreate op (Some d) w = injectBefore op (Some d) (createOpName (opt op)) w \<and>
    beforeUpdate op (Some d) w = injectBefore op (Some d) (updateOpName (opt op)) w \<and>
    beforeQuery op (Some d) w = injectBefore op (Some d) (queryOpName (opt op)) w \<and>
    beforeDelete op (Some d) w = injectBefore op (Some d) (deleteOpName (opt op)) w \<and>
    beforeRow op (Some d) w = injectBefore op (Some d) (rowOpName (opt op)) w \<and>
    beforeRaw op (Some d) w = injectBefore op (Some d) (rawOpName (opt op)) w"
  using assms
  by (simp add: injectBefore_present Now_def DB_Name_def beforeCreate_def beforeUpdate_def
      beforeQuery_def beforeDelete_def beforeRow_def beforeRaw_def)

theorem before_hook_starts_span_witness:
  "Statement example_db = Some example_statement \<and>
   Context example_statement = Some (Ctx 1) \<and>
   beforeQuery (New (TracerProvider 0) []) (Some example_db) example_world
     = (Some \<lparr> Dialector = \<lparr> dialector_Name = ''mysql'', Explain = (\<lambda>sql vars. sql @ concat vars) \<rparr>,
               Statement = Some \<lparr> Context = Some (Ctx 1), SQL = ''SELECT '', Vars = [''42''],
                 Settings = [''start_time'' \<mapsto> VTime 63898000000000000000, ''span'' \<mapsto> VSpan 0] \<rparr> \<rparr>,
        \<lparr> clock = 63898000000000000000, global_provider = TracerProvider 0,
          spans = [\<lparr> sp_provider = TracerProvider 0, sp_tracer = ''MySQL-Operation'',
                     sp_name = ''query'', sp_attrs = [DBSystemValue, DBNameKey ''mysql''],
                     sp_ended = False \<rparr>],
          logs = [] \<rparr>)"
  using before_hook_starts_span [of "example_db" "example_statement" "Ctx 1" "New (TracerProvider 0) []" "''query''" "example_world"]
  by (simp add: New_def defaultOption_def queryOp_def Now_def DB_Name_def)

text \<open>
  Claim C10. Two plugins whose options differ only in \<open>logResult\<close>, the tracer
  provider and \<open>logSqlParameters\<close> have the same before hooks and the same after hook,
  as functions of every handle and world. The span of the before hook always comes from
  the process-wide provider under the tracer name \<open>MySQL-Operation\<close>, whatever tracer
  is configured, and the SQL of the after hook is always the interpolation of all bound
  parameters.
\<close>

theorem hooks_ignore_options:
  "beforeCreate (op\<lparr>opt := (opt op)\<lparr>logResult := lr, tracer := tr, logSqlParameters := lp\<rparr>\<rparr>) = beforeCreate op \<and>
   beforeUpdate (op\<lparr>opt := (opt op)\<lparr>logResult := lr, tracer := tr, logSqlParameters := lp\<rparr>\<rparr>) = beforeUpdate op \<and>
   beforeQuery (op\<lparr>opt := (opt op)\<lparr>logResult := lr, tracer := tr, logSqlParameters := lp\<rparr>\<rparr>) = beforeQuery op \<and>
   beforeDelete (op\<lparr>opt := (opt op)\<lparr>logResult := lr, tracer := tr, logSqlParameters := lp\<rparr>\<rparr>) = beforeDelete op \<and>
   beforeRow (op\<lparr>opt := (opt op)\<lparr>logResult := lr, tracer := tr, logSqlParameters := lp\<rparr>\<rparr>) = beforeRow op \<and>
   beforeRaw (op\<lparr>opt := (opt op)\<lparr>logResult := lr, tracer := tr, logSqlParameters := lp\<rparr>\<rparr>) = beforeRaw op \<and>
   after (op\<lparr>opt := (opt op)\<lparr>logResult := lr, tracer := tr, logSqlParameters := lp\<rparr>\<rparr>) = after op \<and>
   (Statement d = Some st \<longrightarrow> Context st = Some ctx \<longrightarrow>
      spans (snd (injectBefore op (Some d) name w)) = spans w @
        [\<lparr> sp_provider = global_provider w, sp_tracer = ''MySQL-Operation'', sp_name = name,
           sp_attrs = [DBSystemValue, DBNameKey (DB_Name d)], sp_ended = False \<rparr>] \<and>
      logs (snd (extractAfter op (Some d) w)) = logs w @
        [\<lparr> lg_ctx = ctx, lg_name = DB_Name d,
           lg_cost = Sub (Now w) (case Settings st ''start_time'' of Some (VTime t) \<Rightarrow> t | _ \<Rightarrow> zeroTime),
           lg_sql = Explain (Dialector d) (SQL st) (Vars st) \<rparr>])"
proof -
  have End_logs: "logs (End h v) = logs v" "clock (End h v) = clock v" for h v
    by (simp_all add: End_def)
  have Set_logs: "logs (SetAttributes h a v) = logs v" "clock (SetAttributes h a v) = clock v" for h a v
    by (simp_all add: SetAttributes_def)
  have "injectBefore (op\<lparr>opt := (opt op)\<lparr>logResult := lr, tracer := tr, logSqlParameters := lp\<rparr>\<rparr>) = injectBefore op"
    by (intro ext) (simp add: injectBefore_def)
  moreover have "extractAfter (op\<lparr>opt := (opt op)\<lparr>logResult := lr, tracer := tr, logSqlParameters := lp\<rparr>\<rparr>) = extractAfter op"
    by (intro ext) (simp add: extractAfter_def)
  ultimately have hooks: ?thesis if "Statement d = Some st \<longrightarrow> Context st = Some ctx \<longrightarrow>
      spans (snd (injectBefore op (Some d) name w)) = spans w @
        [\<lparr> sp_provider = global_provider w, sp_tracer = ''MySQL-Operation'', sp_name = name,
           sp_attrs = [DBSystemValue, DBNameKey (DB_Name d)], sp_ended = False \<rparr>] \<and>
      logs (snd (extractAfter op (Some d) w)) = logs w @
        [\<lparr> lg_ctx = ctx, lg_name = DB_Name d,
           lg_cost = Sub (Now w) (case Settings st ''start_time'' of Some (VTime t) \<Rightarrow> t | _ \<Rightarrow> zeroTime),
           lg_sql = Explain (Dialector d) (SQL st) (Vars st) \<rparr>]"
    using that
    by (simp add: beforeCreate_def beforeUpdate_def beforeQuery_def beforeDelete_def
        beforeRow_def beforeRaw_def after_def fun_eq_iff)
  show ?thesis
  proof (rule hooks, intro impI)
    assume st: "Statement d = Some st" and ctx: "Context st = Some ctx"
    show "spans (snd (injectBefore op (Some d) name w)) = spans w @
        [\<lparr> sp_provider = global_provider w, sp_tracer = ''MySQL-Operation'', sp_name = name,
           sp_attrs = [DBSystemValue, DBNameKey (DB_Name d)], sp_ended = False \<rparr>] \<and>
      logs (snd (extractAfter op (Some d) w)) = logs w @
        [\<lparr> lg_ctx = ctx, lg_name = DB_Name d,
           lg_cost = Sub (Now w) (case Settings st ''start_time'' of Some (VTime t) \<Rightarrow> t | _ \<Rightarrow> zeroTime),
           lg_sql = Explain (Dialector d) (SQL st) (Vars st) \<rparr>]"
      by (simp add: injectBefore_present [OF st ctx] extractAfter_present [OF st ctx]
          DB_Name_def Now_def Let_def End_logs Set_logs
          split: option.splits inst_val.splits)
  qed
qed

theorem hooks_ignore_options_witness:
  "Statement example_db = Some example_statement \<and>
   Context example_statement = Some (Ctx 1) \<and>
   beforeQuery (New (TracerProvider 0) [WithLogResult True, WithTracer (Some (TracerProvider 7)), WithSqlParameters False])
     = beforeQuery (New (TracerProvider 0) []) \<and>
   after (New (TracerProvider 0) [WithLogResult True, WithTracer (Some (TracerProvider 7)), WithSqlParameters False])
     = after (New (TracerProvider 0) []) \<and>
   map sp_provider (spans (snd (injectBefore
       (New (TracerProvider 0) [WithTracer (Some (TracerProvider 7))]) (Some example_db) ''query'' example_world)))
     = [TracerProvider 0] \<and>
   map lg_sql (logs (snd (extractAfter
       (New (TracerProvider 0) [WithSqlParameters False]) (Some example_db) example_world)))
     = [''SELECT 42'']"
  using hooks_ignore_options [where op = "New (TracerProvider 0) []" and lr = True and tr = "Some (TracerProvider 7)" and lp = False
      and d = "example_db"
      and st = "example_statement"
      and ctx = "Ctx 1" and name = "''query''"
      and w = "example_world"]
    hooks_ignore_options [where op = "New (TracerProvider 0) [WithTracer (Some (TracerProvider 7))]" and lr = False and tr = "None" and lp = False
      and d = "example_db"
      and st = "example_statement"
      and ctx = "Ctx 1" and name = "''query''"
      and w = "example_world"]
    hooks_ignore_options [where op = "New (TracerProvider 0) [WithSqlParameters False]" and lr = False and tr = "None" and lp = False
      and d = "example_db"
      and st = "example_statement"
      and ctx = "Ctx 1" and name = "''query''"
      and w = "example_world"]
  by (simp add: New_def defaultOption_def WithLogResult_def WithTracer_def WithSqlParameters_def)


section \<open>Properties of \<open>Initialize\<close>\<close>













section \<open>Properties of \<open>Get\<close>\<close>

lemma Get_hit: "dbs s name = Some h \<Longrightarrow> Get host ctx name dsn s = (Return (Some h) None, s)"
  by (simp add: Get_def)

lemma Get_keeps: "dbs s name = Some h \<Longrightarrow> dbs (snd (Get host ctx1 name1 dsn1 s)) name = Some h"
  by (auto simp: Get_def sfg_Do_def Get_fn_def Let_def split: option.splits sum.splits prod.splits)

lemma Get_all_keeps: "dbs s name = Some h \<Longrightarrow> dbs (Get_all host calls s) name = Some h"
  by (induction host calls s rule: Get_all.induct) (auto simp: Get_keeps)


text \<open>
  Claim C5. When the mapping holds a handle under a name, \<open>Get\<close> for that name
  returns that handle with a nil error and leaves the state as it is: \<open>gorm.Open\<close> is
  not invoked. This holds whatever keys the single-flight group holds, and after any
  further sequence of \<open>Get\<close> calls.
\<close>

theorem Get_cache_hit:
  "dbs s name = Some h \<Longrightarrow>
     Get host ctx name dsn s = (Return (Some h) None, s) \<and>
     Get host ctx name dsn (s\<lparr>sfg := g\<rparr>) = (Return (Some h) None, s\<lparr>sfg := g\<rparr>) \<and>
     Get host ctx name dsn (Get_all host calls s) = (Return (Some h) None, Get_all host calls s)"
  by (simp add: Get_hit Get_all_keeps)

theorem Get_cache_hit_witness:
  "dbs (\<lparr> dbs = [''main'' \<mapsto> 5], sfg = {''main''}, opened = [''dsn''] \<rparr>) ''main'' = Some 5 \<and>
   Get example_host (Ctx 0) ''main'' ''dsn'' (\<lparr> dbs = [''main'' \<mapsto> 5], sfg = {''main''}, opened = [''dsn''] \<rparr>)
     = (Return (Some 5) None, \<lparr> dbs = [''main'' \<mapsto> 5], sfg = {''main''}, opened = [''dsn''] \<rparr>) \<and>
   Get example_host (Ctx 0) ''main'' ''dsn'' (\<lparr> dbs = [''main'' \<mapsto> 5], sfg = {}, opened = [''dsn''] \<rparr>)
     = (Return (Some 5) None, \<lparr> dbs = [''main'' \<mapsto> 5], sfg = {}, opened = [''dsn''] \<rparr>)"
  using Get_cache_hit [where s = "\<lparr> dbs = [''main'' \<mapsto> 5], sfg = {''main''}, opened = [''dsn''] \<rparr>" and name = "''main''" and h = 5 and host = "example_host"
      and ctx = "Ctx 0" and dsn = "''dsn''" and g = "{}" and calls = "[]"]
  by simp

text \<open>
  Claim C2 on a concrete run. The first \<open>gorm.Open\<close> fails and every later one
  succeeds. On the empty registry, \<open>Get\<close> does not return the error: the function
  passed to \<open>sfg.Do\<close> returns a nil interface value, and the type assertion on it
  panics. Nothing is cached under the name, and a second \<open>Get\<close> opens again and
  returns the new handle.
\<close>

theorem Get_open_failure_panics:
  "Get example_host (Ctx 0) ''main'' ''dsn'' \<lparr> dbs = Map.empty, sfg = {}, opened = [] \<rparr>
     = (Panic ''interface conversion: interface is nil, not *gorm.DB'',
        \<lparr> dbs = Map.empty, sfg = {}, opened = [''dsn''] \<rparr>) \<and>
   Get example_host (Ctx 0) ''main'' ''dsn'' \<lparr> dbs = Map.empty, sfg = {}, opened = [''dsn''] \<rparr>
     = (Return (Some 101) None,
        \<lparr> dbs = [''main'' \<mapsto> 101], sfg = {}, opened = [''dsn'', ''dsn''] \<rparr>)"
  by (simp add: Get_def sfg_Do_def Get_fn_def)


lemma Get_as_steps:
  "Get host ctx name dsn s =
     (case Get_step host ctx name dsn Start s of
        (Finished r, s1) \<Rightarrow> (r, s1)
      | (c1, s1) \<Rightarrow>
          (case Get_step host ctx name dsn c1 s1 of
             (Finished r, s2) \<Rightarrow> (r, s2)
           | (c2, s2) \<Rightarrow> (Blocked, s2)))"
  by (auto simp: Get_def Get_step_def split: option.splits prod.splits caller.splits)

text \<open>
  Claim C1 on a concrete run. Ten callers ask for the same unseen name on the empty
  registry, with a host whose \<open>gorm.Open\<close> always succeeds. Every caller does its
  lookup and misses before any of them reaches \<open>sfg.Do\<close>; then they run \<open>sfg.Do\<close>
  one after the other. Each finds no call in flight, since the earlier one has completed
  and its key is forgotten, and each opens again: \<open>gorm.Open\<close> is invoked ten times
  and the ten callers return ten different handles.
\<close>

theorem Get_concurrent_opens_again:
  "(case run_schedule example_host_ok (Ctx 0) ''main'' ''dsn''
      [0, 1, 2, 3, 4, 5, 6, 7, 8, 9, 0, 1, 2, 3, 4, 5, 6, 7, 8, 9]
      ([Start, Start, Start, Start, Start, Start, Start, Start, Start, Start],
       \<lparr> dbs = Map.empty, sfg = {}, opened = [] \<rparr>) of
     (cs, s) \<Rightarrow> (cs, dbs s ''main'', sfg s, opened s))
   = ([Finished (Return (Some 100) None), Finished (Return (Some 101) None),
       Finished (Return (Some 102) None), Finished (Return (Some 103) None),
       Finished (Return (Some 104) None), Finished (Return (Some 105) None),
       Finished (Return (Some 106) None), Finished (Return (Some 107) None),
       Finished (Return (Some 108) None), Finished (Return (Some 109) None)],
      Some 109, {},
      [''dsn'', ''dsn'', ''dsn'', ''dsn'', ''dsn'', ''dsn'', ''dsn'', ''dsn'', ''dsn'', ''dsn''])"
  by (simp add: run_schedule_def Get_step_def sfg_Do_def Get_fn_def nth_Cons' list_update_code)


end
